theory Spec2Isabelle
  imports Complex_Main
begin

section \<open>Numbers returned by the statistics library\<close>

text \<open>
  The reductions of a column (\<open>mean\<close>, \<open>median\<close>, \<open>quantile\<close>, \<open>std\<close>) return double
  precision numbers. They are modelled by exact reals, extended with the three special
  values a double can take, so that an undefined statistic (\<open>NaN\<close>) and a division by
  zero are values of the model and not an unspecified real. Rounding and overflow of
  finite doubles are not modelled; view counts are unbounded integers.
\<close>

datatype float64 = Finite real | PosInf | NegInf | NaN

text \<open>Comparisons: every comparison with \<open>NaN\<close> is false.\<close>

fun flt :: "float64 \<Rightarrow> float64 \<Rightarrow> bool" where
  "flt (Finite a) (Finite b) = (a < b)"
| "flt (Finite a) PosInf = True"
| "flt NegInf (Finite b) = True"
| "flt NegInf PosInf = True"
| "flt _ _ = False"

fun fle :: "float64 \<Rightarrow> float64 \<Rightarrow> bool" where
  "fle (Finite a) (Finite b) = (a \<le> b)"
| "fle NaN _ = False"
| "fle _ NaN = False"
| "fle NegInf _ = True"
| "fle _ PosInf = True"
| "fle _ _ = False"

definition fgt :: "float64 \<Rightarrow> float64 \<Rightarrow> bool" where
  "fgt a b = flt b a"

definition fge :: "float64 \<Rightarrow> float64 \<Rightarrow> bool" where
  "fge a b = fle b a"

text \<open>Division and multiplication; a zero divisor gives an infinity or \<open>NaN\<close>, never an
  exception (the operands are library scalars, not Python floats).\<close>

fun fdiv :: "float64 \<Rightarrow> float64 \<Rightarrow> float64" where
  "fdiv (Finite a) (Finite b) =
     (if b \<noteq> 0 then Finite (a / b)
      else if 0 < a then PosInf else if a < 0 then NegInf else NaN)"
| "fdiv (Finite a) PosInf = Finite 0"
| "fdiv (Finite a) NegInf = Finite 0"
| "fdiv PosInf (Finite b) = (if 0 \<le> b then PosInf else NegInf)"
| "fdiv NegInf (Finite b) = (if 0 \<le> b then NegInf else PosInf)"
| "fdiv _ _ = NaN"

fun fmul :: "float64 \<Rightarrow> float64 \<Rightarrow> float64" where
  "fmul (Finite a) (Finite b) = Finite (a * b)"
| "fmul PosInf (Finite b) = (if 0 < b then PosInf else if b < 0 then NegInf else NaN)"
| "fmul NegInf (Finite b) = (if 0 < b then NegInf else if b < 0 then PosInf else NaN)"
| "fmul (Finite a) PosInf = (if 0 < a then PosInf else if a < 0 then NegInf else NaN)"
| "fmul (Finite a) NegInf = (if 0 < a then NegInf else if a < 0 then PosInf else NaN)"
| "fmul PosInf PosInf = PosInf"
| "fmul NegInf NegInf = PosInf"
| "fmul PosInf NegInf = NegInf"
| "fmul NegInf PosInf = NegInf"
| "fmul _ _ = NaN"

fun fsqrt :: "float64 \<Rightarrow> float64" where
  "fsqrt (Finite a) = (if a < 0 then NaN else Finite (sqrt a))"
| "fsqrt PosInf = PosInf"
| "fsqrt _ = NaN"

subsection \<open>Column reductions\<close>

text \<open>\<open>Series.mean()\<close>: the arithmetic mean, \<open>NaN\<close> on an empty column.\<close>

definition pd_mean :: "real list \<Rightarrow> float64" where
  "pd_mean xs = (if xs = [] then NaN else Finite (sum_list xs / real (length xs)))"

text \<open>\<open>Series.median()\<close>: the column is ordered, and the mean of the slice
  \<open>[index, index + 1)\<close> (odd length) or \<open>[index - 1, index + 1)\<close> (even length) is taken,
  where \<open>index = n // 2\<close>.\<close>

definition pd_median :: "int list \<Rightarrow> float64" where
  "pd_median xs =
     (let part = sort xs; n = length part; index = n div 2 in
      if n = 0 then NaN
      else if n mod 2 = 1 then pd_mean (map real_of_int (take 1 (drop index part)))
      else pd_mean (map real_of_int (take 2 (drop (index - 1) part))))"

text \<open>\<open>Series.quantile(q)\<close> with the default linear interpolation: the virtual index
  \<open>(n - 1) * q\<close> is split into its floor and its fractional part \<open>gamma\<close>, and the result
  interpolates between the two neighbouring order statistics. Only levels between 0 and
  1 are accepted by the library; the engine uses 0.25 and 0.75.\<close>

definition pd_quantile :: "int list \<Rightarrow> real \<Rightarrow> float64" where
  "pd_quantile xs q =
     (let arr = sort xs; n = length arr in
      if n = 0 then NaN
      else
        let virtual_index = real (n - 1) * q;
            previous_index = nat \<lfloor>virtual_index\<rfloor>;
            next_index = min (previous_index + 1) (n - 1);
            gamma = virtual_index - real previous_index;
            a = real_of_int (arr ! previous_index);
            b = real_of_int (arr ! next_index)
        in Finite (a + (b - a) * gamma))"

text \<open>\<open>Series.std()\<close>: the square root of the variance with \<open>ddof = 1\<close>; \<open>NaN\<close> when
  the column has at most \<open>ddof\<close> entries.\<close>

definition pd_var :: "int list \<Rightarrow> float64" where
  "pd_var xs =
     (let count = length xs; ddof = 1 in
      if count \<le> ddof then NaN
      else
        let avg = sum_list (map real_of_int xs) / real count;
            sqr = sum_list (map (\<lambda>x. (avg - real_of_int x)\<^sup>2) xs)
        in Finite (sqr / real (count - ddof)))"

definition pd_std :: "int list \<Rightarrow> float64" where
  "pd_std xs = fsqrt (pd_var xs)"

section \<open>Storage\<close>

text \<open>The two tables created by the collector, with the columns the engine's queries
  read. \<open>channel_id\<close> is \<open>UNIQUE NOT NULL\<close> in \<open>channels\<close>; the numeric columns hold
  the integers the collector writes.\<close>

record channels_row =
  c_channel_id :: string
  c_channel_name :: string
  c_subscriber_count :: int
  c_view_count :: int
  c_video_count :: int

record video_analytics_row =
  v_video_id :: string
  v_channel_id :: string
  v_title :: string
  v_views :: int
  v_likes :: int
  v_comments_count :: int
  v_engagement_rate :: real
  v_published_at :: string

record database =
  channels :: "channels_row list"
  video_analytics :: "video_analytics_row list"

datatype exn = DatabaseError | ValueError | KeyError

text \<open>Either the store cannot be read (connecting or running a query raises), or it
  holds a snapshot of the two tables.\<close>

datatype storage = Failing | Stored database

definition read_sql_query :: "storage \<Rightarrow> (database \<Rightarrow> 'a list) \<Rightarrow> exn + 'a list" where
  "read_sql_query st query =
     (case st of Failing \<Rightarrow> Inl DatabaseError | Stored db \<Rightarrow> Inr (query db))"

text \<open>\<open>if channel_id:\<close> selects the filtered query; \<open>None\<close> and the empty string are
  falsy and select the query over all channels.\<close>

definition channel_filter :: "string option \<Rightarrow> string option" where
  "channel_filter channel_id =
     (case channel_id of None \<Rightarrow> None | Some s \<Rightarrow> if s = [] then None else Some s)"

definition matches :: "string option \<Rightarrow> string \<Rightarrow> bool" where
  "matches sel cid = (case sel of None \<Rightarrow> True | Some s \<Rightarrow> cid = s)"

subsection \<open>The video listing\<close>

record video =
  title :: string
  views :: int
  likes :: int
  comments_count :: int
  engagement_rate :: real
  published_at :: string
  channel_name :: string

definition join_row :: "video_analytics_row \<Rightarrow> channels_row \<Rightarrow> video" where
  "join_row v c =
     \<lparr> title = v_title v, views = v_views v, likes = v_likes v,
       comments_count = v_comments_count v, engagement_rate = v_engagement_rate v,
       published_at = v_published_at v, channel_name = c_channel_name c \<rparr>"

text \<open>\<open>FROM video_analytics v JOIN channels c ON v.channel_id = c.channel_id
  [WHERE v.channel_id = ?]\<close>: the stored video rows in table order, each with its
  matching channel rows.\<close>

definition video_rows :: "database \<Rightarrow> string option \<Rightarrow> video list" where
  "video_rows db sel =
     concat (map (\<lambda>v. map (join_row v)
                        (filter (\<lambda>c. v_channel_id v = c_channel_id c) (channels db)))
                 (filter (\<lambda>v. matches sel (v_channel_id v)) (video_analytics db)))"

text \<open>\<open>ORDER BY v.views DESC\<close>. Rows with equal views keep the order in which the
  join produced them, as the storage engine's sorter does.\<close>

definition order_by_views_desc :: "video list \<Rightarrow> video list" where
  "order_by_views_desc rows = sort_key (\<lambda>r. - views r) rows"

definition video_query :: "string option \<Rightarrow> database \<Rightarrow> video list" where
  "video_query sel db = order_by_views_desc (video_rows db sel)"

subsection \<open>The channel overview\<close>

record overview_row =
  ov_channel_name :: string
  ov_subscriber_count :: int
  ov_view_count :: int
  ov_video_count :: int
  ov_videos_analyzed :: nat
  ov_avg_video_views :: "real option"
  ov_avg_video_likes :: "real option"
  ov_avg_engagement_rate :: "real option"
  ov_best_video_views :: "int option"
  ov_worst_video_views :: "int option"

text \<open>SQL aggregates over a group: \<open>AVG\<close>, \<open>MAX\<close> and \<open>MIN\<close> are \<open>NULL\<close> on a group
  without rows.\<close>

definition sql_avg :: "real list \<Rightarrow> real option" where
  "sql_avg xs = (if xs = [] then None else Some (sum_list xs / real (length xs)))"

definition sql_max :: "int list \<Rightarrow> int option" where
  "sql_max xs = (case xs of [] \<Rightarrow> None | x # ys \<Rightarrow> Some (fold max ys x))"

definition sql_min :: "int list \<Rightarrow> int option" where
  "sql_min xs = (case xs of [] \<Rightarrow> None | x # ys \<Rightarrow> Some (fold min ys x))"

text \<open>\<open>FROM channels c LEFT JOIN video_analytics v ON c.channel_id = v.channel_id
  [WHERE c.channel_id = ?] GROUP BY c.channel_id\<close>: one group for each channel row
  (\<open>channel_id\<close> is unique), also when the channel has no video.\<close>

definition overview_group :: "database \<Rightarrow> channels_row \<Rightarrow> overview_row" where
  "overview_group db c =
     (let vs = filter (\<lambda>v. c_channel_id c = v_channel_id v) (video_analytics db) in
      \<lparr> ov_channel_name = c_channel_name c,
        ov_subscriber_count = c_subscriber_count c,
        ov_view_count = c_view_count c,
        ov_video_count = c_video_count c,
        ov_videos_analyzed = length vs,
        ov_avg_video_views = sql_avg (map (\<lambda>v. real_of_int (v_views v)) vs),
        ov_avg_video_likes = sql_avg (map (\<lambda>v. real_of_int (v_likes v)) vs),
        ov_avg_engagement_rate = sql_avg (map v_engagement_rate vs),
        ov_best_video_views = sql_max (map v_views vs),
        ov_worst_video_views = sql_min (map v_views vs) \<rparr>)"

definition overview_query :: "string option \<Rightarrow> database \<Rightarrow> overview_row list" where
  "overview_query sel db =
     map (overview_group db) (filter (\<lambda>c. matches sel (c_channel_id c)) (channels db))"

section \<open>The analytics engine\<close>

text \<open>\<open>get_channel_overview\<close>: the query result, or an empty table when anything in
  the \<open>try\<close> block raised.\<close>

definition get_channel_overview :: "storage \<Rightarrow> string option \<Rightarrow> overview_row list" where
  "get_channel_overview st channel_id =
     (case read_sql_query st (overview_query (channel_filter channel_id)) of
        Inl e \<Rightarrow> []
      | Inr result \<Rightarrow> result)"

record distribution =
  high_performers :: nat
  medium_performers :: nat
  low_performers :: nat

record analysis =
  total_videos :: nat
  total_views :: int
  avg_views :: float64
  median_views :: float64
  best_performing :: video
  avg_engagement_rate :: float64
  view_distribution :: distribution

text \<open>The three row masks of the view distribution, over the column \<open>vs\<close> of all view
  counts.\<close>

definition is_high :: "int list \<Rightarrow> video \<Rightarrow> bool" where
  "is_high vs r = fgt (Finite (real_of_int (views r))) (pd_quantile vs (3 / 4))"

definition is_medium :: "int list \<Rightarrow> video \<Rightarrow> bool" where
  "is_medium vs r =
     (fge (Finite (real_of_int (views r))) (pd_quantile vs (1 / 4)) \<and>
      fle (Finite (real_of_int (views r))) (pd_quantile vs (3 / 4)))"

definition is_low :: "int list \<Rightarrow> video \<Rightarrow> bool" where
  "is_low vs r = flt (Finite (real_of_int (views r))) (pd_quantile vs (1 / 4))"

text \<open>The mapping built for a table with first row \<open>r\<close> and further rows \<open>rs\<close>.\<close>

definition build_analysis :: "video \<Rightarrow> video list \<Rightarrow> analysis" where
  "build_analysis r rs =
     (let videos_df = r # rs; vs = map views videos_df in
      \<lparr> total_videos = length videos_df,
        total_views = sum_list vs,
        avg_views = pd_mean (map real_of_int vs),
        median_views = pd_median vs,
        best_performing = r,
        avg_engagement_rate = pd_mean (map engagement_rate videos_df),
        view_distribution =
          \<lparr> high_performers = length (filter (is_high vs) videos_df),
            medium_performers = length (filter (is_medium vs) videos_df),
            low_performers = length (filter (is_low vs) videos_df) \<rparr> \<rparr>)"

text \<open>What \<open>analyze_video_performance\<close> returns: a bare mapping, or a pair of a mapping
  and a table. The mapping is either empty (\<open>None\<close>) or the full analysis.\<close>

datatype py_result = Dict "analysis option" | Tuple "analysis option" "video list"

definition analyze_video_performance :: "storage \<Rightarrow> string option \<Rightarrow> py_result" where
  "analyze_video_performance st channel_id =
     (case read_sql_query st (video_query (channel_filter channel_id)) of
        Inl e \<Rightarrow> Tuple None []
      | Inr videos_df \<Rightarrow>
          (case videos_df of
             [] \<Rightarrow> Dict None
           | r # rs \<Rightarrow> Tuple (Some (build_analysis r rs)) videos_df))"

text \<open>\<open>analysis, videos_df = ...\<close>: a pair unpacks into its components. A mapping is
  iterated over its keys, of which there are none (the empty mapping) or seven (the full
  analysis), never two, so the unpacking raises \<open>ValueError\<close>.\<close>

definition unpack2 :: "py_result \<Rightarrow> exn + (analysis option \<times> video list)" where
  "unpack2 res =
     (case res of
        Tuple a df \<Rightarrow> Inr (a, df)
      | Dict d \<Rightarrow> Inl ValueError)"

subsection \<open>The insight rules\<close>

datatype engagement_insight = GreatEngagement | GoodEngagement | LowEngagement

datatype consistency_insight = ConsistentPerformance | HighVariability

datatype distribution_insight = MoreHighPerformers | OpportunityToImprove

definition engagement_rule :: "float64 \<Rightarrow> engagement_insight" where
  "engagement_rule rate =
     (if fgt rate (Finite 3) then GreatEngagement
      else if fgt rate (Finite 1) then GoodEngagement
      else LowEngagement)"

text \<open>\<open>cv = (videos_df['views'].std() / videos_df['views'].mean()) * 100\<close>\<close>

definition coefficient_of_variation :: "int list \<Rightarrow> float64" where
  "coefficient_of_variation vs =
     fmul (fdiv (pd_std vs) (pd_mean (map real_of_int vs))) (Finite 100)"

definition consistency_rule :: "float64 \<Rightarrow> consistency_insight" where
  "consistency_rule cv =
     (if flt cv (Finite 50) then ConsistentPerformance else HighVariability)"

definition distribution_rule :: "distribution \<Rightarrow> distribution_insight" where
  "distribution_rule d =
     (if low_performers d < high_performers d then MoreHighPerformers
      else OpportunityToImprove)"

subsection \<open>The insights report\<close>

text \<open>The report is printed, and the method returns nothing; the model returns what
  was printed: one of the two "no data" messages, the report with its three insight
  statements, or the message of the final handler with the exception it caught.\<close>

record report =
  rp_channel_name :: string
  rp_subscribers :: int
  rp_channel_views :: int
  rp_channel_videos :: int
  rp_analysis :: analysis
  rp_engagement :: engagement_insight
  rp_consistency :: consistency_insight
  rp_distribution :: distribution_insight

datatype report_outcome =
    NoChannelData
  | NoVideoAnalysisData
  | ReportPrinted report
  | ReportError exn

definition generate_insights_report :: "storage \<Rightarrow> string option \<Rightarrow> report_outcome" where
  "generate_insights_report st channel_id =
     (case get_channel_overview st channel_id of
        [] \<Rightarrow> NoChannelData
      | row0 # _ \<Rightarrow>
          (case unpack2 (analyze_video_performance st channel_id) of
             Inl e \<Rightarrow> ReportError e
           | Inr (None, videos_df) \<Rightarrow> NoVideoAnalysisData
           | Inr (Some a, videos_df) \<Rightarrow>
               ReportPrinted
                 \<lparr> rp_channel_name = ov_channel_name row0,
                   rp_subscribers = ov_subscriber_count row0,
                   rp_channel_views = ov_view_count row0,
                   rp_channel_videos = ov_video_count row0,
                   rp_analysis = a,
                   rp_engagement = engagement_rule (avg_engagement_rate a),
                   rp_consistency =
                     consistency_rule (coefficient_of_variation (map views videos_df)),
                   rp_distribution = distribution_rule (view_distribution a) \<rparr>))"

subsection \<open>The visualizations\<close>

text \<open>Of \<open>create_performance_visualizations\<close> the model keeps the control flow up to the
  plotting: the unpacking of the analysis, the "no data" message, and otherwise the
  table and the distribution handed to the plotting library.\<close>

datatype visualization_outcome =
    NoVisualizationData
  | FigureSaved "video list" distribution
  | VisualizationError exn

definition create_performance_visualizations ::
    "storage \<Rightarrow> string option \<Rightarrow> visualization_outcome" where
  "create_performance_visualizations st channel_id =
     (case unpack2 (analyze_video_performance st channel_id) of
        Inl e \<Rightarrow> VisualizationError e
      | Inr (analysis, videos_df) \<Rightarrow>
          (if videos_df = [] then NoVisualizationData
           else (case analysis of
                   None \<Rightarrow> VisualizationError KeyError
                 | Some a \<Rightarrow> FigureSaved videos_df (view_distribution a))))"

section \<open>Reference notions\<close>

text \<open>The notions the properties below are stated with: the interpolation that a
  quantile performs on the ordered column, the textbook median, and the sample standard
  deviation.\<close>

text \<open>The value interpolated at a virtual index \<open>p\<close> of an ordered column.\<close>

definition lerp_at :: "int list \<Rightarrow> real \<Rightarrow> real" where
  "lerp_at arr p =
     real_of_int (arr ! nat \<lfloor>p\<rfloor>) +
     (real_of_int (arr ! min (nat \<lfloor>p\<rfloor> + 1) (length arr - 1)) -
      real_of_int (arr ! nat \<lfloor>p\<rfloor>)) * (p - real (nat \<lfloor>p\<rfloor>))"

text \<open>The median of a column: the middle value of the ordered column when the number
  of values is odd, the average of the two middle values when it is even.\<close>

definition standard_median :: "int list \<Rightarrow> real" where
  "standard_median xs =
     (let s = sort xs; n = length s in
      if odd n then real_of_int (s ! (n div 2))
      else (real_of_int (s ! (n div 2 - 1)) + real_of_int (s ! (n div 2))) / 2)"



section \<open>An example store\<close>

text \<open>A store with one channel \<open>UC1\<close> and the videos given as triples of a title, a
  view count and an engagement rate, in the order of their insertion. The closed
  statements below are evaluated on such stores.\<close>

definition demo_channel :: channels_row where
  "demo_channel = \<lparr> c_channel_id = ''UC1'', c_channel_name = ''Demo'',
      c_subscriber_count = 1000, c_view_count = 5000, c_video_count = 4 \<rparr>"

definition demo_video :: "string \<times> int \<times> real \<Rightarrow> video_analytics_row" where
  "demo_video x = (case x of (t, v, e) \<Rightarrow>
     \<lparr> v_video_id = t, v_channel_id = ''UC1'', v_title = t, v_views = v, v_likes = 0,
       v_comments_count = 0, v_engagement_rate = e, v_published_at = ''2024-01-01'' \<rparr>)"

definition demo_row :: "string \<times> int \<times> real \<Rightarrow> video" where
  "demo_row x = join_row (demo_video x) demo_channel"

definition demo_db :: "(string \<times> int \<times> real) list \<Rightarrow> database" where
  "demo_db xs = \<lparr> channels = [demo_channel], video_analytics = map demo_video xs \<rparr>"

section \<open>Auxiliary facts\<close>

lemma sort_key_Nil_iff: "sort_key f xs = [] \<longleftrightarrow> xs = []"
  by (metis length_sort length_0_conv)

lemma pd_quantile_lerp:
  "xs \<noteq> [] \<Longrightarrow>
     pd_quantile xs q = Finite (lerp_at (sort xs) (real (length xs - 1) * q))"
  by (simp add: pd_quantile_def lerp_at_def Let_def sort_key_Nil_iff)

lemma lerp_bounds:
  assumes "sorted arr" "arr \<noteq> []" "0 \<le> p" "p \<le> real (length arr - 1)"
  shows "real_of_int (arr ! nat \<lfloor>p\<rfloor>) \<le> lerp_at arr p"
    and "lerp_at arr p \<le> real_of_int (arr ! min (nat \<lfloor>p\<rfloor> + 1) (length arr - 1))"
proof -
  let ?lo = "nat \<lfloor>p\<rfloor>" and ?hi = "min (nat \<lfloor>p\<rfloor> + 1) (length arr - 1)"
  have lo_le: "?lo \<le> length arr - 1" using assms(3,4) by linarith
  then have "?lo \<le> ?hi" by simp
  moreover have "?hi < length arr" using assms(2) by (cases arr) (auto simp: min_def)
  ultimately have ab: "arr ! ?lo \<le> arr ! ?hi" using assms(1) by (rule_tac sorted_nth_mono)
  have g0: "0 \<le> p - real ?lo" using assms(3) by linarith
  have g1: "p - real ?lo \<le> 1" using assms(3) by linarith
  let ?d = "real_of_int (arr ! ?hi) - real_of_int (arr ! ?lo)"
  have d0: "0 \<le> ?d" using ab by simp
  have "0 \<le> ?d * (p - real ?lo)" using d0 g0 by simp
  then show "real_of_int (arr ! ?lo) \<le> lerp_at arr p" by (simp add: lerp_at_def)
  have "?d * (p - real ?lo) \<le> ?d * 1" using d0 g1 by (rule_tac mult_left_mono)
  then show "lerp_at arr p \<le> real_of_int (arr ! ?hi)" by (simp add: lerp_at_def)
qed

lemma lerp_mono:
  assumes "sorted arr" "arr \<noteq> []" "0 \<le> p" "p \<le> p'" "p' \<le> real (length arr - 1)"
  shows "lerp_at arr p \<le> lerp_at arr p'"
proof (cases "nat \<lfloor>p\<rfloor> = nat \<lfloor>p'\<rfloor>")
  case True
  let ?lo = "nat \<lfloor>p\<rfloor>" and ?hi = "min (nat \<lfloor>p\<rfloor> + 1) (length arr - 1)"
  have lo_le: "?lo \<le> length arr - 1" using assms by linarith
  then have "?lo \<le> ?hi" by simp
  moreover have "?hi < length arr" using assms(2) by (cases arr) (auto simp: min_def)
  ultimately have ab: "arr ! ?lo \<le> arr ! ?hi" using assms(1) by (rule_tac sorted_nth_mono)
  let ?d = "real_of_int (arr ! ?hi) - real_of_int (arr ! ?lo)"
  have d0: "0 \<le> ?d" using ab by simp
  have "?d * (p - real ?lo) \<le> ?d * (p' - real ?lo)"
    using d0 assms(4) by (intro mult_left_mono) simp_all
  then show ?thesis using True by (simp add: lerp_at_def)
next
  case False
  have fl: "\<lfloor>p\<rfloor> \<le> \<lfloor>p'\<rfloor>" using assms(4) by (rule floor_mono)
  then have "nat \<lfloor>p\<rfloor> < nat \<lfloor>p'\<rfloor>" using False by linarith
  then have hi_le: "min (nat \<lfloor>p\<rfloor> + 1) (length arr - 1) \<le> nat \<lfloor>p'\<rfloor>" by linarith
  have "0 < length arr" using assms(2) by simp
  then have "nat \<lfloor>p'\<rfloor> < length arr" using assms(3,4,5) by linarith
  with hi_le assms(1) have mid: "arr ! min (nat \<lfloor>p\<rfloor> + 1) (length arr - 1) \<le> arr ! nat \<lfloor>p'\<rfloor>"
    by (rule_tac sorted_nth_mono)
  have "lerp_at arr p \<le> real_of_int (arr ! min (nat \<lfloor>p\<rfloor> + 1) (length arr - 1))"
    using assms by (intro lerp_bounds(2)) simp_all
  also have "\<dots> \<le> real_of_int (arr ! nat \<lfloor>p'\<rfloor>)" using mid by simp
  also have "\<dots> \<le> lerp_at arr p'" using assms by (intro lerp_bounds(1)) simp_all
  finally show ?thesis .
qed

lemma quartiles_ordered:
  assumes "xs \<noteq> []"
  shows "lerp_at (sort xs) (real (length xs - 1) * (1 / 4)) \<le>
         lerp_at (sort xs) (real (length xs - 1) * (3 / 4))"
  using assms by (intro lerp_mono) (simp_all add: sort_key_Nil_iff)

lemma three_way_count:
  assumes "\<And>x. x \<in> set xs \<Longrightarrow> (P x \<and> \<not> Q x \<and> \<not> R x) \<or> (\<not> P x \<and> Q x \<and> \<not> R x) \<or> (\<not> P x \<and> \<not> Q x \<and> R x)"
  shows "length (filter P xs) + length (filter Q xs) + length (filter R xs) = length xs"
  using assms
proof (induction xs)
  case Nil
  then show ?case by simp
next
  case (Cons x xs)
  have ih: "length (filter P xs) + length (filter Q xs) + length (filter R xs) = length xs"
    using Cons by simp
  have "(P x \<and> \<not> Q x \<and> \<not> R x) \<or> (\<not> P x \<and> Q x \<and> \<not> R x) \<or> (\<not> P x \<and> \<not> Q x \<and> R x)"
    using Cons.prems by simp
  then show ?case using ih by auto
qed

lemma masks_finite:
  assumes "pd_quantile vs (1 / 4) = Finite lo" "pd_quantile vs (3 / 4) = Finite hi"
  shows "is_high vs r = (hi < real_of_int (views r))"
    and "is_medium vs r = (lo \<le> real_of_int (views r) \<and> real_of_int (views r) \<le> hi)"
    and "is_low vs r = (real_of_int (views r) < lo)"
  using assms by (simp_all add: is_high_def is_medium_def is_low_def fgt_def fge_def)

lemma quartiles_exist:
  assumes "vs \<noteq> []"
  shows "\<exists>lo hi. pd_quantile vs (1 / 4) = Finite lo \<and> pd_quantile vs (3 / 4) = Finite hi \<and> lo \<le> hi"
  using assms quartiles_ordered[OF assms] by (simp add: pd_quantile_lerp)

lemma read_videos_analysis:
  assumes "read_sql_query st (video_query (channel_filter channel_id)) = Inr videos_df"
    and "videos_df \<noteq> []"
  shows "analyze_video_performance st channel_id =
           Tuple (Some (build_analysis (hd videos_df) (tl videos_df))) videos_df"
  using assms by (cases videos_df) (simp_all add: analyze_video_performance_def)

lemma build_analysis_fields:
  "total_videos (build_analysis r rs) = Suc (length rs)"
  "high_performers (view_distribution (build_analysis r rs)) = length (filter (is_high (map views (r # rs))) (r # rs))"
  "medium_performers (view_distribution (build_analysis r rs)) = length (filter (is_medium (map views (r # rs))) (r # rs))"
  "low_performers (view_distribution (build_analysis r rs)) = length (filter (is_low (map views (r # rs))) (r # rs))"
  "median_views (build_analysis r rs) = pd_median (map views (r # rs))"
  "best_performing (build_analysis r rs) = r"
  "avg_engagement_rate (build_analysis r rs) = pd_mean (map engagement_rate (r # rs))"
  by (simp_all add: build_analysis_def Let_def)

lemma find_filter_Cons: "filter P xs = y # zs \<Longrightarrow> List.find P xs = Some y"
  by (induction xs) (auto split: if_splits)

lemma hd_sort_key_first_min:
  fixes f :: "'a \<Rightarrow> 'k::linorder" and xs :: "'a list"
  assumes "xs \<noteq> []"
  defines "y \<equiv> hd (sort_key f xs)"
  shows "y \<in> set xs" and "\<forall>x\<in>set xs. f y \<le> f x" and "List.find (\<lambda>x. f x = f y) xs = Some y"
proof -
  obtain ys where ys: "sort_key f xs = y # ys"
    using assms by (cases "sort_key f xs") (simp_all add: sort_key_Nil_iff)
  have "set (sort_key f xs) = set xs" by simp
  with ys show "y \<in> set xs" by (metis list.set_intros(1))
  have "sorted (map f (sort_key f xs))" by (rule sorted_sort_key)
  with ys have "\<forall>x\<in>set ys. f y \<le> f x" by simp
  then have "\<forall>x\<in>set (y # ys). f y \<le> f x" by simp
  then show "\<forall>x\<in>set xs. f y \<le> f x" using ys by (metis set_sort)
  have "filter (\<lambda>x. f x = f y) xs = filter (\<lambda>x. f x = f y) (sort_key f xs)"
    by (rule sort_key_stable[symmetric])
  also have "\<dots> = y # filter (\<lambda>x. f x = f y) ys" using ys by simp
  finally show "List.find (\<lambda>x. f x = f y) xs = Some y" by (rule find_filter_Cons)
qed

lemma find_hd: "xs \<noteq> [] \<Longrightarrow> P (hd xs) \<Longrightarrow> List.find P xs = Some (hd xs)"
  by (cases xs) simp_all

lemma take1_drop: "i < length xs \<Longrightarrow> take 1 (drop i xs) = [xs ! i]"
  by (metis Cons_nth_drop_Suc One_nat_def take0 take_Suc_Cons)

lemma take2_drop: "Suc i < length xs \<Longrightarrow> take 2 (drop i xs) = [xs ! i, xs ! Suc i]"
proof -
  assume a: "Suc i < length xs"
  then have "drop i xs = xs ! i # drop (Suc i) xs" by (simp add: Cons_nth_drop_Suc)
  moreover have "drop (Suc i) xs = xs ! Suc i # drop (Suc (Suc i)) xs"
    using a by (simp add: Cons_nth_drop_Suc)
  ultimately show ?thesis by (simp add: numeral_2_eq_2)
qed

lemma pd_median_standard:
  assumes "xs \<noteq> []"
  shows "pd_median xs = Finite (standard_median xs)"
proof (cases "odd (length xs)")
  case True
  have "length xs div 2 < length (sort xs)" using assms by simp
  then have "take 1 (drop (length xs div 2) (sort xs)) = [sort xs ! (length xs div 2)]"
    by (rule take1_drop)
  then show ?thesis using True assms
    by (simp add: pd_median_def standard_median_def pd_mean_def Let_def odd_iff_mod_2_eq_one sort_key_Nil_iff)
next
  case False
  then have ev: "even (length xs)" by simp
  have pos: "0 < length xs" using assms by simp
  have "length xs \<noteq> 1" using ev by auto
  with pos have "2 \<le> length xs" by linarith
  then have "Suc (length xs div 2 - 1) < length (sort xs)" by simp
  then have "take 2 (drop (length xs div 2 - 1) (sort xs)) =
      [sort xs ! (length xs div 2 - 1), sort xs ! Suc (length xs div 2 - 1)]"
    by (rule take2_drop)
  moreover have "Suc (length xs div 2 - 1) = length xs div 2" using \<open>2 \<le> length xs\<close> by linarith
  ultimately show ?thesis using ev assms
    by (simp add: pd_median_def standard_median_def pd_mean_def Let_def sort_key_Nil_iff)
qed

lemma constant_quantile:
  assumes "vs \<noteq> []" "list_all (\<lambda>v. v = c) vs" "0 \<le> q" "q \<le> 1"
  shows "pd_quantile vs q = Finite (real_of_int c)"
proof -
  let ?arr = "sort vs" and ?p = "real (length vs - 1) * q"
  have all: "\<And>i. i < length vs \<Longrightarrow> ?arr ! i = c"
  proof -
    fix i assume "i < length vs"
    then have "?arr ! i \<in> set vs" by (metis nth_mem length_sort set_sort)
    then show "?arr ! i = c" using assms(2) by (simp add: list_all_iff)
  qed
  have p0: "0 \<le> ?p" using assms(3) by simp
  have "?p \<le> real (length vs - 1) * 1" using assms(4) by (intro mult_left_mono) simp_all
  then have p1: "?p \<le> real (length vs - 1)" by simp
  have pos: "0 < length vs" using assms(1) by simp
  have lo: "nat \<lfloor>?p\<rfloor> < length vs" using p0 p1 pos by linarith
  have hi: "min (nat \<lfloor>?p\<rfloor> + 1) (length vs - 1) < length vs" using pos by linarith
  show ?thesis using all[OF lo] all[OF hi] assms(1)
    by (simp add: pd_quantile_lerp lerp_at_def)
qed

lemma demo_row_simps [simp]:
  "title (demo_row (t, v, e)) = t" "views (demo_row (t, v, e)) = v"
  "engagement_rate (demo_row (t, v, e)) = e"
  by (simp_all add: demo_row_def demo_video_def join_row_def)

lemma demo_video_rows: "video_rows (demo_db xs) None = map demo_row xs"
  by (induction xs)
     (simp_all add: video_rows_def demo_db_def matches_def demo_video_def demo_channel_def demo_row_def split: prod.splits)








lemma demo_read:
  "read_sql_query (Stored (demo_db xs)) (video_query (channel_filter None)) =
     Inr (order_by_views_desc (map demo_row xs))"
  by (simp add: read_sql_query_def video_query_def channel_filter_def demo_video_rows)

lemma demo_overview:
  "get_channel_overview (Stored (demo_db xs)) None = [overview_group (demo_db xs) demo_channel]"
  by (simp add: get_channel_overview_def read_sql_query_def overview_query_def channel_filter_def
        matches_def demo_db_def)

lemma demo_analysis:
  "analyze_video_performance (Stored (demo_db (x # xs))) None =
     Tuple (Some (build_analysis (hd (order_by_views_desc (map demo_row (x # xs))))
                                 (tl (order_by_views_desc (map demo_row (x # xs))))))
           (order_by_views_desc (map demo_row (x # xs)))"
  by (rule read_videos_analysis[OF demo_read]) (simp add: order_by_views_desc_def sort_key_Nil_iff)

lemma demo_report:
  "generate_insights_report (Stored (demo_db (x # xs))) None =
     ReportPrinted
       \<lparr> rp_channel_name = ''Demo'', rp_subscribers = 1000, rp_channel_views = 5000,
         rp_channel_videos = 4,
         rp_analysis = build_analysis (hd (order_by_views_desc (map demo_row (x # xs))))
                                      (tl (order_by_views_desc (map demo_row (x # xs)))),
         rp_engagement = engagement_rule (avg_engagement_rate
            (build_analysis (hd (order_by_views_desc (map demo_row (x # xs))))
                            (tl (order_by_views_desc (map demo_row (x # xs)))))),
         rp_consistency = consistency_rule (coefficient_of_variation
            (map views (order_by_views_desc (map demo_row (x # xs))))),
         rp_distribution = distribution_rule (view_distribution
            (build_analysis (hd (order_by_views_desc (map demo_row (x # xs))))
                            (tl (order_by_views_desc (map demo_row (x # xs)))))) \<rparr>"
  unfolding generate_insights_report_def demo_overview demo_analysis
  by (simp add: unpack2_def overview_group_def demo_channel_def Let_def)

lemma sorted_demo2:
  "order_by_views_desc [demo_row (''a'', 10, 1), demo_row (''b'', 40, 5)] =
     [demo_row (''b'', 40, 5), demo_row (''a'', 10, 1)]"
  by (simp add: order_by_views_desc_def)

lemma sorted_demo4:
  "order_by_views_desc [demo_row (''a'', 10, 1), demo_row (''b'', 40, 2),
                        demo_row (''c'', 20, 5), demo_row (''d'', 30, 1 / 2)] =
     [demo_row (''b'', 40, 2), demo_row (''d'', 30, 1 / 2),
      demo_row (''c'', 20, 5), demo_row (''a'', 10, 1)]"
  by (simp add: order_by_views_desc_def)

lemma sorted_demo3:
  "order_by_views_desc [demo_row (''a'', 10, 1), demo_row (''b'', 20, 2), demo_row (''c'', 30, 3)] =
     [demo_row (''c'', 30, 3), demo_row (''b'', 20, 2), demo_row (''a'', 10, 1)]"
  by (simp add: order_by_views_desc_def)

lemma sorted_demo_same:
  "order_by_views_desc [demo_row (''a'', 7, 1), demo_row (''b'', 7, 2), demo_row (''c'', 7, 3)] =
     [demo_row (''a'', 7, 1), demo_row (''b'', 7, 2), demo_row (''c'', 7, 3)]"
  by (simp add: order_by_views_desc_def)

lemma sorted_demo_zero:
  "order_by_views_desc [demo_row (''a'', 0, 0), demo_row (''b'', 0, 0)] =
     [demo_row (''a'', 0, 0), demo_row (''b'', 0, 0)]"
  by (simp add: order_by_views_desc_def)

lemma quartiles_demo4:
  "pd_quantile [40, 30, 20, 10] (1 / 4) = Finite (35 / 2)"
  "pd_quantile [40, 30, 20, 10] (3 / 4) = Finite (65 / 2)"
  by (simp_all add: pd_quantile_def Let_def)

lemma sorted_demo_tie:
  "order_by_views_desc [demo_row (''a'', 10, 1), demo_row (''b'', 40, 2),
                        demo_row (''c'', 40, 5), demo_row (''d'', 30, 1 / 2)] =
     [demo_row (''b'', 40, 2), demo_row (''c'', 40, 5),
      demo_row (''d'', 30, 1 / 2), demo_row (''a'', 10, 1)]"
  by (simp add: order_by_views_desc_def)



section \<open>The properties of the engine\<close>

text \<open>
  \<^bold>\<open>C1\<close>. Whenever the video listing is a non-empty table, the analysis is returned, and
  its three buckets partition the rows. With \<open>p25\<close> and \<open>p75\<close> the 25th and 75th
  percentile of the view counts, \<open>high_performers\<close> counts the rows with views strictly
  above \<open>p75\<close>, \<open>medium_performers\<close> the rows with views in the closed interval from
  \<open>p25\<close> to \<open>p75\<close>, \<open>low_performers\<close> the rows with views strictly below \<open>p25\<close>; the
  three counts add up to \<open>total_videos\<close>, the number of rows, and no row satisfies two
  of the three masks.
\<close>

theorem buckets_partition:
  assumes "read_sql_query st (video_query (channel_filter channel_id)) = Inr videos_df"
    and "videos_df \<noteq> []"
  shows "\<exists>a p25 p75.
           analyze_video_performance st channel_id = Tuple (Some a) videos_df \<and>
           pd_quantile (map views videos_df) (1 / 4) = Finite p25 \<and>
           pd_quantile (map views videos_df) (3 / 4) = Finite p75 \<and>
           high_performers (view_distribution a) =
             length (filter (\<lambda>r. p75 < real_of_int (views r)) videos_df) \<and>
           medium_performers (view_distribution a) =
             length (filter (\<lambda>r. p25 \<le> real_of_int (views r) \<and> real_of_int (views r) \<le> p75) videos_df) \<and>
           low_performers (view_distribution a) =
             length (filter (\<lambda>r. real_of_int (views r) < p25) videos_df) \<and>
           high_performers (view_distribution a) + medium_performers (view_distribution a) +
             low_performers (view_distribution a) = total_videos a \<and>
           total_videos a = length videos_df \<and>
           list_all (\<lambda>r. \<not> (is_high (map views videos_df) r \<and> is_medium (map views videos_df) r) \<and>
                           \<not> (is_high (map views videos_df) r \<and> is_low (map views videos_df) r) \<and>
                           \<not> (is_medium (map views videos_df) r \<and> is_low (map views videos_df) r)) videos_df"
proof -
  obtain r rs where df: "videos_df = r # rs" using assms(2) by (cases videos_df) auto
  let ?vs = "map views videos_df"
  have "?vs \<noteq> []" using assms(2) by simp
  then obtain p25 p75 where q: "pd_quantile ?vs (1 / 4) = Finite p25"
      "pd_quantile ?vs (3 / 4) = Finite p75" "p25 \<le> p75"
    using quartiles_exist by blast
  note m = masks_finite[OF q(1,2)]
  have mf: "is_high ?vs = (\<lambda>r. p75 < real_of_int (views r))"
    "is_medium ?vs = (\<lambda>r. p25 \<le> real_of_int (views r) \<and> real_of_int (views r) \<le> p75)"
    "is_low ?vs = (\<lambda>r. real_of_int (views r) < p25)"
    by (rule ext, simp add: m)+
  let ?a = "build_analysis r rs"
  have res: "analyze_video_performance st channel_id = Tuple (Some ?a) videos_df"
    using read_videos_analysis[OF assms] df by simp
  have hi: "high_performers (view_distribution ?a) = length (filter (\<lambda>r. p75 < real_of_int (views r)) videos_df)"
    using mf(1) df by (simp add: build_analysis_fields del: list.map)
  have me: "medium_performers (view_distribution ?a) =
      length (filter (\<lambda>r. p25 \<le> real_of_int (views r) \<and> real_of_int (views r) \<le> p75) videos_df)"
    using mf(2) df by (simp add: build_analysis_fields del: list.map)
  have lo: "low_performers (view_distribution ?a) = length (filter (\<lambda>r. real_of_int (views r) < p25) videos_df)"
    using mf(3) df by (simp add: build_analysis_fields del: list.map)
  have tot: "total_videos ?a = length videos_df" using df by (simp add: build_analysis_fields)
  have "length (filter (\<lambda>r. p75 < real_of_int (views r)) videos_df) +
        length (filter (\<lambda>r. p25 \<le> real_of_int (views r) \<and> real_of_int (views r) \<le> p75) videos_df) +
        length (filter (\<lambda>r. real_of_int (views r) < p25) videos_df) = length videos_df"
    using q(3) by (intro three_way_count) linarith
  then have sum: "high_performers (view_distribution ?a) + medium_performers (view_distribution ?a) +
             low_performers (view_distribution ?a) = total_videos ?a"
    using hi me lo tot by simp
  have disj: "list_all (\<lambda>r. \<not> (is_high ?vs r \<and> is_medium ?vs r) \<and>
                           \<not> (is_high ?vs r \<and> is_low ?vs r) \<and>
                           \<not> (is_medium ?vs r \<and> is_low ?vs r)) videos_df"
    unfolding list_all_iff using q(3) by (auto simp: m)
  show ?thesis using res q(1,2) hi me lo sum tot disj by blast
qed

text \<open>On the views 10, 40, 20, 30 the percentiles are 17.5 and 32.5, and the buckets hold
  1, 2 and 1 of the 4 videos.\<close>

theorem buckets_partition_witness:
  "read_sql_query (Stored (demo_db [(''a'', 10, 1), (''b'', 40, 2), (''c'', 20, 5), (''d'', 30, 1 / 2)]))
      (video_query (channel_filter None)) =
     Inr [demo_row (''b'', 40, 2), demo_row (''d'', 30, 1 / 2),
          demo_row (''c'', 20, 5), demo_row (''a'', 10, 1)] \<and>
   (\<exists>a. analyze_video_performance
          (Stored (demo_db [(''a'', 10, 1), (''b'', 40, 2), (''c'', 20, 5), (''d'', 30, 1 / 2)])) None =
        Tuple (Some a) [demo_row (''b'', 40, 2), demo_row (''d'', 30, 1 / 2),
                        demo_row (''c'', 20, 5), demo_row (''a'', 10, 1)] \<and>
        high_performers (view_distribution a) = 1 \<and>
        medium_performers (view_distribution a) = 2 \<and>
        low_performers (view_distribution a) = 1 \<and>
        total_videos a = 4)"
proof -
  let ?st = "Stored (demo_db [(''a'', 10, 1), (''b'', 40, 2), (''c'', 20, 5), (''d'', 30, 1 / 2)])"
  let ?df = "[demo_row (''b'', 40, 2), demo_row (''d'', 30, 1 / 2),
              demo_row (''c'', 20, 5), demo_row (''a'', 10, 1)]"
  have h1: "read_sql_query ?st (video_query (channel_filter None)) = Inr ?df"
    by (simp add: demo_read sorted_demo4)
  have h2: "?df \<noteq> []" by simp
  from buckets_partition[OF h1 h2] obtain a p25 p75 where
    r: "analyze_video_performance ?st None = Tuple (Some a) ?df"
    and q1: "pd_quantile (map views ?df) (1 / 4) = Finite p25"
    and q3: "pd_quantile (map views ?df) (3 / 4) = Finite p75"
    and hi: "high_performers (view_distribution a) =
             length (filter (\<lambda>r. p75 < real_of_int (views r)) ?df)"
    and me: "medium_performers (view_distribution a) =
             length (filter (\<lambda>r. p25 \<le> real_of_int (views r) \<and> real_of_int (views r) \<le> p75) ?df)"
    and lo: "low_performers (view_distribution a) =
             length (filter (\<lambda>r. real_of_int (views r) < p25) ?df)"
    and tot: "total_videos a = length ?df"
    by blast
  have p25: "p25 = 35 / 2" using q1 by (simp add: quartiles_demo4)
  have p75: "p75 = 65 / 2" using q3 by (simp add: quartiles_demo4)
  have "high_performers (view_distribution a) = 1" using hi p75 by simp
  moreover have "medium_performers (view_distribution a) = 2" using me p25 p75 by simp
  moreover have "low_performers (view_distribution a) = 1" using lo p25 by simp
  moreover have "total_videos a = 4" using tot by simp
  ultimately show ?thesis using h1 r by blast
qed

text \<open>
  \<^bold>\<open>C7\<close>. Whenever every row of a non-empty video table has the same view count \<open>c\<close>, both
  percentiles are \<open>c\<close>, no video is a high or a low performer, and every video is a
  medium performer.
\<close>

theorem identical_views_all_medium:
  assumes "read_sql_query st (video_query (channel_filter channel_id)) = Inr videos_df"
    and "videos_df \<noteq> []"
    and "list_all (\<lambda>r. views r = c) videos_df"
  shows "\<exists>a. analyze_video_performance st channel_id = Tuple (Some a) videos_df \<and>
           pd_quantile (map views videos_df) (1 / 4) = Finite (real_of_int c) \<and>
           pd_quantile (map views videos_df) (3 / 4) = Finite (real_of_int c) \<and>
           high_performers (view_distribution a) = 0 \<and>
           low_performers (view_distribution a) = 0 \<and>
           medium_performers (view_distribution a) = total_videos a \<and>
           total_videos a = length videos_df"
proof -
  obtain r rs where df: "videos_df = r # rs" using assms(2) by (cases videos_df) auto
  let ?vs = "map views videos_df"
  have ne: "?vs \<noteq> []" using assms(2) by simp
  have allc: "list_all (\<lambda>v. v = c) ?vs" using assms(3) by (simp add: list_all_iff)
  have q25: "pd_quantile ?vs (1 / 4) = Finite (real_of_int c)"
    using ne allc by (rule constant_quantile) simp_all
  have q75: "pd_quantile ?vs (3 / 4) = Finite (real_of_int c)"
    using ne allc by (rule constant_quantile) simp_all
  note m = masks_finite[OF q25 q75]
  have vc: "\<And>x. x \<in> set videos_df \<Longrightarrow> views x = c" using assms(3) by (simp add: list_all_iff)
  have fh: "filter (is_high ?vs) videos_df = []"
    by (simp add: filter_empty_conv m vc)
  have fl: "filter (is_low ?vs) videos_df = []"
    by (simp add: filter_empty_conv m vc)
  have fm: "filter (is_medium ?vs) videos_df = videos_df"
    by (simp add: filter_id_conv m vc)
  let ?a = "build_analysis r rs"
  have res: "analyze_video_performance st channel_id = Tuple (Some ?a) videos_df"
    using read_videos_analysis[OF assms(1,2)] df by simp
  have "high_performers (view_distribution ?a) = 0"
    using fh df by (simp add: build_analysis_fields del: list.map filter.simps)
  moreover have "low_performers (view_distribution ?a) = 0"
    using fl df by (simp add: build_analysis_fields del: list.map filter.simps)
  moreover have "total_videos ?a = length videos_df" using df by (simp add: build_analysis_fields)
  moreover have "medium_performers (view_distribution ?a) = length videos_df"
    using fm df by (simp add: build_analysis_fields del: list.map filter.simps)
  ultimately show ?thesis using res q25 q75 by simp
qed

text \<open>Three videos with 7 views each: 0 high, 0 low, 3 medium.\<close>

theorem identical_views_all_medium_witness:
  "\<exists>a. analyze_video_performance (Stored (demo_db [(''a'', 7, 1), (''b'', 7, 2), (''c'', 7, 3)])) None =
        Tuple (Some a) [demo_row (''a'', 7, 1), demo_row (''b'', 7, 2), demo_row (''c'', 7, 3)] \<and>
      high_performers (view_distribution a) = 0 \<and>
      low_performers (view_distribution a) = 0 \<and>
      medium_performers (view_distribution a) = 3 \<and>
      total_videos a = 3"
proof -
  let ?st = "Stored (demo_db [(''a'', 7, 1), (''b'', 7, 2), (''c'', 7, 3)])"
  let ?df = "[demo_row (''a'', 7, 1), demo_row (''b'', 7, 2), demo_row (''c'', 7, 3)]"
  have h1: "read_sql_query ?st (video_query (channel_filter None)) = Inr ?df"
    by (simp add: demo_read sorted_demo_same)
  have h2: "?df \<noteq> []" by simp
  have h3: "list_all (\<lambda>r. views r = 7) ?df" by simp
  from identical_views_all_medium[OF h1 h2 h3] show ?thesis by auto
qed

text \<open>
  \<^bold>\<open>C6\<close>. For every non-empty video table, \<open>median_views\<close> is the standard median of the
  view counts: the middle value for an odd number of rows, the average of the two middle
  values for an even number. In particular the view counts 10, 20, 30, 40 give 25, and
  10, 20, 30 give 20.
\<close>

theorem median_views_standard:
  assumes "read_sql_query st (video_query (channel_filter channel_id)) = Inr videos_df"
    and "videos_df \<noteq> []"
  shows "\<exists>a. analyze_video_performance st channel_id = Tuple (Some a) videos_df \<and>
           median_views a = Finite (standard_median (map views videos_df)) \<and>
           (sort (map views videos_df) = [10, 20, 30, 40] \<longrightarrow> median_views a = Finite 25) \<and>
           (sort (map views videos_df) = [10, 20, 30] \<longrightarrow> median_views a = Finite 20)"
proof -
  obtain r rs where df: "videos_df = r # rs" using assms(2) by (cases videos_df) auto
  let ?a = "build_analysis r rs"
  have res: "analyze_video_performance st channel_id = Tuple (Some ?a) videos_df"
    using read_videos_analysis[OF assms] df by simp
  have "median_views ?a = pd_median (map views videos_df)"
    using df by (simp add: build_analysis_fields)
  also have "\<dots> = Finite (standard_median (map views videos_df))"
    using assms(2) by (intro pd_median_standard) simp
  finally have med: "median_views ?a = Finite (standard_median (map views videos_df))" .
  have e4: "median_views ?a = Finite 25" if "sort (map views videos_df) = [10, 20, 30, 40]"
    using med that by (simp add: standard_median_def)
  have e3: "median_views ?a = Finite 20" if "sort (map views videos_df) = [10, 20, 30]"
    using med that by (simp add: standard_median_def)
  show ?thesis using res med e4 e3 by blast
qed

text \<open>Both examples, computed by the engine from a store.\<close>

theorem median_views_standard_witness:
  "(\<exists>a. analyze_video_performance
          (Stored (demo_db [(''a'', 10, 1), (''b'', 40, 2), (''c'', 20, 5), (''d'', 30, 1 / 2)])) None =
        Tuple (Some a) [demo_row (''b'', 40, 2), demo_row (''d'', 30, 1 / 2),
                        demo_row (''c'', 20, 5), demo_row (''a'', 10, 1)] \<and>
        median_views a = Finite 25) \<and>
   (\<exists>a. analyze_video_performance
          (Stored (demo_db [(''a'', 10, 1), (''b'', 20, 2), (''c'', 30, 3)])) None =
        Tuple (Some a) [demo_row (''c'', 30, 3), demo_row (''b'', 20, 2), demo_row (''a'', 10, 1)] \<and>
        median_views a = Finite 20)"
proof
  let ?st = "Stored (demo_db [(''a'', 10, 1), (''b'', 40, 2), (''c'', 20, 5), (''d'', 30, 1 / 2)])"
  let ?df = "[demo_row (''b'', 40, 2), demo_row (''d'', 30, 1 / 2),
              demo_row (''c'', 20, 5), demo_row (''a'', 10, 1)]"
  have h1: "read_sql_query ?st (video_query (channel_filter None)) = Inr ?df"
    by (simp add: demo_read sorted_demo4)
  have h2: "?df \<noteq> []" by simp
  from median_views_standard[OF h1 h2]
  show "\<exists>a. analyze_video_performance ?st None = Tuple (Some a) ?df \<and> median_views a = Finite 25"
    by auto
next
  let ?st = "Stored (demo_db [(''a'', 10, 1), (''b'', 20, 2), (''c'', 30, 3)])"
  let ?df = "[demo_row (''c'', 30, 3), demo_row (''b'', 20, 2), demo_row (''a'', 10, 1)]"
  have h1: "read_sql_query ?st (video_query (channel_filter None)) = Inr ?df"
    by (simp add: demo_read sorted_demo3)
  have h2: "?df \<noteq> []" by simp
  from median_views_standard[OF h1 h2]
  show "\<exists>a. analyze_video_performance ?st None = Tuple (Some a) ?df \<and> median_views a = Finite 20"
    by auto
qed

text \<open>
  \<^bold>\<open>C3\<close>. Whenever the joined video rows are not empty, \<open>best_performing\<close> is one of these
  rows, its view count is the maximum view count over all rows, and among the rows with
  that maximum it is the first one, both in the returned table and in the order in which
  the rows were stored.
\<close>

theorem best_performing_max_first:
  assumes "video_rows db (channel_filter channel_id) = rows" and "rows \<noteq> []"
  shows "\<exists>a videos_df.
           analyze_video_performance (Stored db) channel_id = Tuple (Some a) videos_df \<and>
           videos_df = order_by_views_desc rows \<and>
           best_performing a \<in> set rows \<and>
           views (best_performing a) = Max (set (map views rows)) \<and>
           List.find (\<lambda>r. views r = Max (set (map views rows))) videos_df = Some (best_performing a) \<and>
           List.find (\<lambda>r. views r = Max (set (map views rows))) rows = Some (best_performing a)"
proof -
  let ?f = "\<lambda>r. - views r"
  let ?df = "order_by_views_desc rows"
  let ?y = "hd ?df"
  have ne: "?df \<noteq> []" using assms(2) by (simp add: order_by_views_desc_def sort_key_Nil_iff)
  have rd: "read_sql_query (Stored db) (video_query (channel_filter channel_id)) = Inr ?df"
    using assms(1) by (simp add: read_sql_query_def video_query_def)
  have res: "analyze_video_performance (Stored db) channel_id =
      Tuple (Some (build_analysis ?y (tl ?df))) ?df"
    using read_videos_analysis[OF rd ne] .
  have best: "best_performing (build_analysis ?y (tl ?df)) = ?y" by (simp add: build_analysis_fields)
  have y_in: "?y \<in> set rows"
    using hd_sort_key_first_min(1)[OF assms(2), of ?f] by (simp add: order_by_views_desc_def)
  have y_min: "\<forall>x\<in>set rows. views x \<le> views ?y"
    using hd_sort_key_first_min(2)[OF assms(2), of ?f] by (simp add: order_by_views_desc_def)
  have y_first: "List.find (\<lambda>r. views r = views ?y) rows = Some ?y"
    using hd_sort_key_first_min(3)[OF assms(2), of ?f] by (simp add: order_by_views_desc_def)
  have mx: "views ?y = Max (set (map views rows))"
    using y_in y_min by (intro Max_eqI[symmetric]) auto
  have y_first_df: "List.find (\<lambda>r. views r = views ?y) ?df = Some ?y"
    using ne by (intro find_hd) simp_all
  show ?thesis
  proof (intro exI conjI)
    show "analyze_video_performance (Stored db) channel_id =
      Tuple (Some (build_analysis ?y (tl ?df))) ?df" by (rule res)
    show "?df = order_by_views_desc rows" by simp
    show "best_performing (build_analysis ?y (tl ?df)) \<in> set rows" using best y_in by simp
    show "views (best_performing (build_analysis ?y (tl ?df))) = Max (set (map views rows))"
      using best mx by simp
    show "List.find (\<lambda>r. views r = Max (set (map views rows))) ?df =
      Some (best_performing (build_analysis ?y (tl ?df)))"
      using best mx y_first_df by simp
    show "List.find (\<lambda>r. views r = Max (set (map views rows))) rows =
      Some (best_performing (build_analysis ?y (tl ?df)))"
      using best mx y_first by simp
  qed
qed

text \<open>Two videos share the maximum of 40 views; the one stored first is chosen.\<close>

theorem best_performing_max_first_witness:
  "\<exists>a. analyze_video_performance
          (Stored (demo_db [(''a'', 10, 1), (''b'', 40, 2), (''c'', 40, 5), (''d'', 30, 1 / 2)])) None =
        Tuple (Some a) [demo_row (''b'', 40, 2), demo_row (''c'', 40, 5),
                        demo_row (''d'', 30, 1 / 2), demo_row (''a'', 10, 1)] \<and>
      best_performing a = demo_row (''b'', 40, 2) \<and>
      views (best_performing a) = 40"
proof -
  let ?xs = "[(''a'', 10, 1), (''b'', 40, 2), (''c'', 40, 5), (''d'', 30, 1 / 2)]"
  let ?rows = "[demo_row (''a'', 10, 1), demo_row (''b'', 40, 2),
                demo_row (''c'', 40, 5), demo_row (''d'', 30, 1 / 2)]"
  have h1: "video_rows (demo_db ?xs) (channel_filter None) = ?rows"
    by (simp add: channel_filter_def demo_video_rows)
  have h2: "?rows \<noteq> []" by simp
  from best_performing_max_first[OF h1 h2] obtain a videos_df where
    r: "analyze_video_performance (Stored (demo_db ?xs)) None = Tuple (Some a) videos_df"
    and df: "videos_df = order_by_views_desc ?rows"
    and mx: "views (best_performing a) = Max (set (map views ?rows))"
    and fst: "List.find (\<lambda>r. views r = Max (set (map views ?rows))) ?rows = Some (best_performing a)"
    by blast
  have m40: "Max (set (map views ?rows)) = 40" by simp
  have "best_performing a = demo_row (''b'', 40, 2)" using fst unfolding m40 by simp
  moreover have "views (best_performing a) = 40" using mx m40 by simp
  ultimately show ?thesis using r df by (simp add: sorted_demo_tie)
qed





text \<open>
  \<^bold>\<open>C8\<close>. When the storage access of the two queries raises, \<open>get_channel_overview\<close>
  returns the empty table and \<open>analyze_video_performance\<close> returns the pair of the empty
  mapping and the empty table; both are ordinary return values.
\<close>

theorem storage_failure_contained:
  assumes "read_sql_query st (overview_query (channel_filter channel_id)) = Inl e1"
    and "read_sql_query st (video_query (channel_filter channel_id)) = Inl e2"
  shows "get_channel_overview st channel_id = [] \<and>
         analyze_video_performance st channel_id = Tuple None []"
  using assms by (simp add: get_channel_overview_def analyze_video_performance_def)

text \<open>A store that cannot be read.\<close>

theorem storage_failure_contained_witness:
  "read_sql_query Failing (overview_query (channel_filter (Some ''UC1''))) = Inl DatabaseError \<and>
   read_sql_query Failing (video_query (channel_filter (Some ''UC1''))) = Inl DatabaseError \<and>
   get_channel_overview Failing (Some ''UC1'') = [] \<and>
   analyze_video_performance Failing (Some ''UC1'') = Tuple None []"
proof -
  have h1: "read_sql_query Failing (overview_query (channel_filter (Some ''UC1''))) = Inl DatabaseError"
    by (simp add: read_sql_query_def)
  have h2: "read_sql_query Failing (video_query (channel_filter (Some ''UC1''))) = Inl DatabaseError"
    by (simp add: read_sql_query_def)
  from storage_failure_contained[OF h1 h2] h1 h2 show ?thesis by simp
qed

text \<open>
  \<^bold>\<open>C10\<close>. The shape of the result of \<open>analyze_video_performance\<close> depends on the path:
  a pair of the analysis and the table for a non-empty table, a pair of the empty mapping
  and the empty table when the storage access raised, but the bare empty mapping for an
  empty table. Unpacking the latter into two components raises \<open>ValueError\<close>, so that on
  an empty table \<open>create_performance_visualizations\<close> ends in its exception handler, and
  so does \<open>generate_insights_report\<close> whenever the channel overview is not empty.
\<close>

theorem result_shape_depends_on_path:
  "(read_sql_query st (video_query (channel_filter channel_id)) = Inr videos_df \<and> videos_df \<noteq> [] \<longrightarrow>
      (\<exists>a. analyze_video_performance st channel_id = Tuple (Some a) videos_df)) \<and>
   (read_sql_query st (video_query (channel_filter channel_id)) = Inl e \<longrightarrow>
      analyze_video_performance st channel_id = Tuple None []) \<and>
   (read_sql_query st (video_query (channel_filter channel_id)) = Inr [] \<longrightarrow>
      analyze_video_performance st channel_id = Dict None \<and>
      unpack2 (analyze_video_performance st channel_id) = Inl ValueError \<and>
      create_performance_visualizations st channel_id = VisualizationError ValueError \<and>
      (get_channel_overview st channel_id \<noteq> [] \<longrightarrow>
         generate_insights_report st channel_id = ReportError ValueError))"
proof (intro conjI impI)
  assume "read_sql_query st (video_query (channel_filter channel_id)) = Inr videos_df \<and> videos_df \<noteq> []"
  then show "\<exists>a. analyze_video_performance st channel_id = Tuple (Some a) videos_df"
    using read_videos_analysis by blast
next
  assume "read_sql_query st (video_query (channel_filter channel_id)) = Inl e"
  then show "analyze_video_performance st channel_id = Tuple None []"
    by (simp add: analyze_video_performance_def)
next
  assume a: "read_sql_query st (video_query (channel_filter channel_id)) = Inr []"
  then show d: "analyze_video_performance st channel_id = Dict None"
    by (simp add: analyze_video_performance_def)
  then show "unpack2 (analyze_video_performance st channel_id) = Inl ValueError"
    by (simp add: unpack2_def)
  from d show "create_performance_visualizations st channel_id = VisualizationError ValueError"
    by (simp add: create_performance_visualizations_def unpack2_def)
  assume "get_channel_overview st channel_id \<noteq> []"
  with d show "generate_insights_report st channel_id = ReportError ValueError"
    by (simp add: generate_insights_report_def unpack2_def split: list.splits)
qed

text \<open>The three paths: a store with two videos, a store that cannot be read, and a
  store whose channel has no video.\<close>

theorem result_shape_depends_on_path_witness:
  "(\<exists>a. analyze_video_performance (Stored (demo_db [(''a'', 10, 1), (''b'', 40, 5)])) None =
        Tuple (Some a) [demo_row (''b'', 40, 5), demo_row (''a'', 10, 1)]) \<and>
   analyze_video_performance Failing None = Tuple None [] \<and>
   analyze_video_performance (Stored (demo_db [])) None = Dict None \<and>
   unpack2 (analyze_video_performance (Stored (demo_db [])) None) = Inl ValueError \<and>
   create_performance_visualizations (Stored (demo_db [])) None = VisualizationError ValueError \<and>
   get_channel_overview (Stored (demo_db [])) None \<noteq> [] \<and>
   generate_insights_report (Stored (demo_db [])) None = ReportError ValueError"
proof -
  let ?df = "[demo_row (''b'', 40, 5), demo_row (''a'', 10, 1)]"
  have a1: "read_sql_query (Stored (demo_db [(''a'', 10, 1), (''b'', 40, 5)]))
      (video_query (channel_filter None)) = Inr ?df \<and> ?df \<noteq> []"
    by (simp add: demo_read sorted_demo2)
  have a2: "read_sql_query Failing (video_query (channel_filter None)) = Inl DatabaseError"
    by (simp add: read_sql_query_def)
  have a3: "read_sql_query (Stored (demo_db [])) (video_query (channel_filter None)) = Inr []"
    by (simp add: demo_read order_by_views_desc_def)
  have a4: "get_channel_overview (Stored (demo_db [])) None \<noteq> []"
    by (simp add: demo_overview)
  show ?thesis
    using result_shape_depends_on_path[of "Stored (demo_db [(''a'', 10, 1), (''b'', 40, 5)])" None ?df DatabaseError]
      result_shape_depends_on_path[of Failing None "[]" DatabaseError]
      result_shape_depends_on_path[of "Stored (demo_db [])" None "[]" DatabaseError]
      a1 a2 a3 a4
    by blast
qed

text \<open>
  \<^bold>\<open>C2\<close>. A stored channel without videos: the overview has a row, the video table is
  empty, and the report for this channel ends in the exception handler with the
  \<open>ValueError\<close> of the failed unpacking. Neither of the two "no data" messages is
  printed.
\<close>

theorem empty_video_table_reported_as_error:
  "get_channel_overview (Stored (demo_db [])) (Some ''UC1'') \<noteq> [] \<and>
   read_sql_query (Stored (demo_db [])) (video_query (channel_filter (Some ''UC1''))) = Inr [] \<and>
   generate_insights_report (Stored (demo_db [])) (Some ''UC1'') = ReportError ValueError \<and>
   generate_insights_report (Stored (demo_db [])) (Some ''UC1'') \<noteq> NoVideoAnalysisData \<and>
   generate_insights_report (Stored (demo_db [])) (Some ''UC1'') \<noteq> NoChannelData"
  by (simp add: generate_insights_report_def get_channel_overview_def read_sql_query_def
      overview_query_def channel_filter_def matches_def demo_db_def demo_channel_def
      analyze_video_performance_def video_query_def video_rows_def order_by_views_desc_def
      unpack2_def)

text \<open>
  \<^bold>\<open>C9\<close>. Two videos without views: the mean of the views is zero, the division of the
  coefficient of variation is carried out all the same and gives \<open>NaN\<close>, the comparison
  with 50 is false, and the report is printed with the high-variability statement. The
  coefficient of a single-row table is \<open>NaN\<close> as well, its sample variance dividing by
  zero.
\<close>

theorem zero_mean_views_unguarded:
  "\<exists>rep. generate_insights_report (Stored (demo_db [(''a'', 0, 0), (''b'', 0, 0)])) None =
           ReportPrinted rep \<and>
         pd_mean (map real_of_int [0, 0]) = Finite 0 \<and>
         coefficient_of_variation [0, 0] = NaN \<and>
         rp_consistency rep = consistency_rule (coefficient_of_variation [0, 0]) \<and>
         rp_consistency rep = HighVariability \<and>
         coefficient_of_variation [100] = NaN"
proof -
  have one: "coefficient_of_variation [100] = NaN"
    by (simp add: coefficient_of_variation_def pd_std_def pd_var_def)
  have m: "pd_mean (map real_of_int [0, 0]) = Finite 0" by (simp add: pd_mean_def)
  have s: "pd_std [0, 0] = Finite 0" by (simp add: pd_std_def pd_var_def Let_def)
  have cv: "coefficient_of_variation [0, 0] = NaN"
    unfolding coefficient_of_variation_def m s by simp
  show ?thesis
    using m one by (simp add: demo_report sorted_demo_zero cv consistency_rule_def)
qed

end
